theory Spec2Isabelle
  imports Complex_Main
begin

section \<open>Values of the Axona reader (neo/io/axonaio.py)\<close>

text \<open>
  A file is a list of bytes. A byte is a \<^typ>\<open>char\<close> (eight bits), and
  \<open>str(b, 'latin-1')\<close> maps the byte with value \<open>n\<close> to the code point \<open>n\<close>, so the decoded
  text of a byte list is the same list: \<open>decode_latin1\<close> marks the places where the source
  decodes. An open binary file handle is the list of the bytes that are still unread.
\<close>

type_synonym byte = char
type_synonym file_handle = "byte list"

definition decode_latin1 :: "byte list \<Rightarrow> string" where
  "decode_latin1 bs = bs"

text \<open>
  The exceptions the reader can end with. \<open>IOError\<close> and \<open>ValueError\<close> carry their message.
\<close>

datatype pyerror =
    IOError string
  | ValueError string
  | TypeError
  | KeyError string
  | AssertionError
  | AttributeError
  | IndexError
  | OverflowError

text \<open>
  A float is an exact real, one of the two infinities, or not-a-number: rounding to 53
  bits, overflow and the sign of zero are left out. Division follows numpy (a zero divisor
  gives an infinity or not-a-number, never an exception).
\<close>

datatype npfloat = Fin real | PInf | NInf | NaN


fun fsign :: "npfloat \<Rightarrow> int" where
  "fsign (Fin x) = (if x < 0 then -1 else if x = 0 then 0 else 1)"
| "fsign PInf = 1"
| "fsign NInf = -1"
| "fsign NaN = 0"

definition inf_of_sign :: "int \<Rightarrow> npfloat" where
  "inf_of_sign s = (if s = 0 then NaN else if s < 0 then NInf else PInf)"

fun fmul :: "npfloat \<Rightarrow> npfloat \<Rightarrow> npfloat" where
  "fmul (Fin x) (Fin y) = Fin (x * y)"
| "fmul NaN _ = NaN"
| "fmul _ NaN = NaN"
| "fmul a b = inf_of_sign (fsign a * fsign b)"

fun fdiv :: "npfloat \<Rightarrow> npfloat \<Rightarrow> npfloat" where
  "fdiv (Fin x) (Fin y) = (if y = 0 then inf_of_sign (fsign (Fin x)) else Fin (x / y))"
| "fdiv NaN _ = NaN"
| "fdiv _ NaN = NaN"
| "fdiv (Fin x) _ = Fin 0"
| "fdiv a (Fin y) = inf_of_sign (fsign a * (if y < 0 then -1 else 1))"
| "fdiv _ _ = NaN"

subsection \<open>The string methods the reader calls\<close>

text \<open>
  \<open>str.isspace\<close> on the code points below 256: tab to carriage return, the four
  separators 28 to 31, the space, NEL (133) and the no-break space (160).
\<close>

definition is_space :: "char \<Rightarrow> bool" where
  "is_space c = (let n = (of_char c :: nat) in
     (9 \<le> n \<and> n \<le> 13) \<or> (28 \<le> n \<and> n \<le> 32) \<or> n = 133 \<or> n = 160)"

definition strip :: "string \<Rightarrow> string" where
  "strip s = rev (dropWhile is_space (rev (dropWhile is_space s)))"

text \<open>\<open>s.split(c)\<close>: every piece between two separators, the empty ones too.\<close>

fun split_char :: "char \<Rightarrow> string \<Rightarrow> string list" where
  "split_char c [] = [[]]"
| "split_char c (x # xs) =
     (if x = c then [] # split_char c xs
      else (case split_char c xs of
              [] \<Rightarrow> [[x]]
            | y # ys \<Rightarrow> (x # y) # ys))"

text \<open>\<open>s.split(c, 1)\<close>: at most one split, at the first separator.\<close>

definition split_once :: "char \<Rightarrow> string \<Rightarrow> string list" where
  "split_once c s =
     (if c \<in> set s then [takeWhile (\<lambda>x. x \<noteq> c) s, tl (dropWhile (\<lambda>x. x \<noteq> c) s)]
      else [s])"

text \<open>
  \<open>str.lower\<close> on the code points below 256: the capitals are 32 below their small
  letters, and bit 5 is what they lack.
\<close>

definition lower_char :: "char \<Rightarrow> char" where
  "lower_char c = (let n = (of_char c :: nat) in
     if (65 \<le> n \<and> n \<le> 90) \<or> (192 \<le> n \<and> n \<le> 222 \<and> n \<noteq> 215)
     then (case c of Char b0 b1 b2 b3 b4 b5 b6 b7 \<Rightarrow> Char b0 b1 b2 b3 b4 True b6 b7)
     else c)"

definition lower :: "string \<Rightarrow> string" where
  "lower s = map lower_char s"

definition newline :: char where
  "newline = CHR 0x0A"

subsection \<open>\<open>int(s)\<close> and \<open>float(s)\<close> on text\<close>

definition is_digit :: "char \<Rightarrow> bool" where
  "is_digit c = (let n = (of_char c :: nat) in 48 \<le> n \<and> n \<le> 57)"

definition digits_val :: "string \<Rightarrow> nat" where
  "digits_val ds = foldl (\<lambda>acc d. 10 * acc + ((of_char d :: nat) - 48)) 0 ds"

text \<open>An optional sign in front: the sign read, and the text after it.\<close>

fun take_sign :: "string \<Rightarrow> bool \<times> string" where
  "take_sign [] = (False, [])"
| "take_sign (c # cs) =
     (if c = CHR ''-'' then (True, cs)
      else if c = CHR ''+'' then (False, cs)
      else (False, c # cs))"

text \<open>
  \<open>int(s)\<close>: surrounding whitespace dropped, an optional sign, then decimal digits and
  nothing else; \<open>None\<close> is the \<open>ValueError\<close>. (Underscores between digits, which later
  Python versions accept, are not digits here.)
\<close>

definition py_int :: "string \<Rightarrow> int option" where
  "py_int s =
     (let (neg, ds) = take_sign (strip s) in
      if ds \<noteq> [] \<and> list_all is_digit ds
      then Some (if neg then - int (digits_val ds) else int (digits_val ds))
      else None)"

definition scale10 :: "real \<Rightarrow> int \<Rightarrow> real" where
  "scale10 x e = (if 0 \<le> e then x * 10 ^ nat e else x / 10 ^ nat (- e))"

text \<open>The exponent part of a float literal: empty, or \<open>e\<close>, an optional sign and digits.\<close>

definition exponent_part :: "string \<Rightarrow> int option" where
  "exponent_part s =
     (case s of
        [] \<Rightarrow> Some 0
      | c # cs \<Rightarrow>
          if c = CHR ''e'' \<or> c = CHR ''E'' then
            (let (neg, ds) = take_sign cs in
             if ds \<noteq> [] \<and> list_all is_digit ds
             then Some (if neg then - int (digits_val ds) else int (digits_val ds))
             else None)
          else None)"

text \<open>
  \<open>float(s)\<close>: surrounding whitespace dropped, an optional sign, then \<open>inf\<close>,
  \<open>infinity\<close> or \<open>nan\<close> in any case, or digits with an optional point and an optional
  exponent (at least one digit before or after the point); \<open>None\<close> is the \<open>ValueError\<close>.
\<close>

definition py_float :: "string \<Rightarrow> npfloat option" where
  "py_float s =
     (let (neg, body) = take_sign (strip s);
          word = lower body
      in if word = ''inf'' \<or> word = ''infinity'' then Some (if neg then NInf else PInf)
         else if word = ''nan'' then Some NaN
         else
           (let ip = takeWhile is_digit body;
                r1 = dropWhile is_digit body;
                r2 = (case r1 of [] \<Rightarrow> [] | c # cs \<Rightarrow> if c = CHR ''.'' then cs else r1);
                fp = (if r2 = r1 then [] else takeWhile is_digit r2);
                r3 = (if r2 = r1 then r1 else dropWhile is_digit r2)
            in if ip = [] \<and> fp = [] then None
               else (case exponent_part r3 of
                       None \<Rightarrow> None
                     | Some e \<Rightarrow>
                         (let m = scale10 (real (digits_val (ip @ fp))) (e - int (length fp))
                          in Some (Fin (if neg then - m else m))))))"

subsection \<open>Parameter blocks: \<open>parse_params\<close>\<close>

text \<open>A parsed value: \<open>int\<close>, \<open>float\<close>, \<open>str\<close> or \<open>None\<close>. A block is a \<open>dict\<close>.\<close>

datatype pyval = PInt int | PFloat npfloat | PStr string | PNone

type_synonym params = "string \<rightharpoonup> pyval"

text \<open>The nested \<open>try\<close> of \<open>parse_params\<close>: \<open>int\<close>, else \<open>float\<close>, else the text as it is.\<close>

definition parse_value :: "string \<Rightarrow> pyval" where
  "parse_value s =
     (case py_int s of
        Some n \<Rightarrow> PInt n
      | None \<Rightarrow> (case py_float s of Some f \<Rightarrow> PFloat f | None \<Rightarrow> PStr s))"

text \<open>One turn of the loop over the lines.\<close>

definition parse_line :: "params \<Rightarrow> string \<Rightarrow> params" where
  "parse_line ps raw =
     (let line = strip raw in
      if length line = 0 then ps
      else (case split_once (CHR '' '') line of
              [name] \<Rightarrow> ps(name \<mapsto> PNone)
            | name # rest # _ \<Rightarrow> ps(name \<mapsto> parse_value rest)
            | [] \<Rightarrow> ps))"

definition parse_params :: "string \<Rightarrow> params" where
  "parse_params text = foldl parse_line Map.empty (split_char newline text)"

subsection \<open>The header scanner and the trailer check\<close>

definition search_string :: string where
  "search_string = ''data_start''"

text \<open>\<open>header[-len(search_string):] == search_string\<close>\<close>

definition ends_with_search_string :: "string \<Rightarrow> bool" where
  "ends_with_search_string header =
     (drop (length header - length search_string) header = search_string)"

text \<open>
  The \<open>while True\<close> loop of \<open>parse_header_and_leave_cursor\<close>, one byte a turn.
  When \<open>read(1)\<close> returns the empty bytes object, the loop builds the message of its
  \<open>IOError\<close> as \<open>"Hit end of file '" + file_handle + ...\<close>: a \<open>str\<close> plus the file
  object, which raises \<open>TypeError\<close> before any \<open>IOError\<close> exists.
\<close>

fun scan_header :: "string \<Rightarrow> file_handle \<Rightarrow> pyerror + (string \<times> file_handle)" where
  "scan_header header [] = Inl TypeError"
| "scan_header header (b # rest) =
     (let header' = header @ decode_latin1 [b] in
      if ends_with_search_string header' then Inr (header', rest)
      else scan_header header' rest)"

text \<open>The parameters of the header, and the handle with its cursor after the sentinel.\<close>

definition parse_header_and_leave_cursor :: "file_handle \<Rightarrow> pyerror + (params \<times> file_handle)" where
  "parse_header_and_leave_cursor f =
     (case scan_header [] f of
        Inl e \<Rightarrow> Inl e
      | Inr (header, rest) \<Rightarrow> Inr (parse_params header, rest))"

text \<open>\<open>assert_end_of_data\<close> reads the handle to its end and asserts on the text.\<close>

definition assert_end_of_data :: "file_handle \<Rightarrow> pyerror + file_handle" where
  "assert_end_of_data f =
     (let remaining_data = decode_latin1 f in
      if strip remaining_data = ''data_end'' then Inr [] else Inl AssertionError)"

section \<open>The sample scaler: \<open>scale_analog_signal\<close>\<close>

text \<open>
  Arrays are objects with an identity: an array lives in a store, and a Python value that
  is an array is its address. An array has a shape, its elements in row-major order, and
  a \<open>base\<close>: \<open>None\<close> when it owns its buffer, the address of the owner when it is a view.
  An integer array is held by the values of its elements: under
  \<open>from __future__ import division\<close> the operator \<open>/\<close> is true division, which turns
  them into floats first.
\<close>

record ndarray =
  shape :: "nat list"
  elems :: "npfloat list"
  base :: "nat option"

record store =
  cells :: "nat \<Rightarrow> ndarray"
  next_free :: nat

text \<open>The values that reach the scaler: the parsed values, and arrays.\<close>

datatype pyobj = OInt int | OFloat npfloat | OStr string | ONone | OArr nat


definition alloc :: "store \<Rightarrow> ndarray \<Rightarrow> pyobj \<times> store" where
  "alloc s a = (OArr (next_free s),
                s\<lparr>cells := (cells s)(next_free s := a), next_free := Suc (next_free s)\<rparr>)"

text \<open>
  A binary operator (\<open>/\<close> or \<open>*\<close>) of numpy between two operands. With an array among
  them the result is a new array that owns its buffer; the operands are read, not written.
  Two arrays of the same shape combine element by element (broadcasting between
  different shapes is not modelled: the reader passes equal shapes). Two numbers combine
  as numpy scalars do. Text and \<open>None\<close> are no operands.
\<close>

fun np_binop ::
  "(npfloat \<Rightarrow> npfloat \<Rightarrow> npfloat) \<Rightarrow> store \<Rightarrow> pyobj \<Rightarrow> pyobj \<Rightarrow> pyerror + (pyobj \<times> store)"
where
  "np_binop f s (OStr _) _ = Inl TypeError"
| "np_binop f s _ (OStr _) = Inl TypeError"
| "np_binop f s ONone _ = Inl TypeError"
| "np_binop f s _ ONone = Inl TypeError"
| "np_binop f s (OArr i) (OArr j) =
     (let x = cells s i; y = cells s j in
      if shape x = shape y
      then Inr (alloc s \<lparr>shape = shape x, elems = map2 f (elems x) (elems y), base = None\<rparr>)
      else Inl (ValueError ''operands could not be broadcast together''))"
| "np_binop f s (OArr i) (OInt n) =
     (let x = cells s i in
      Inr (alloc s \<lparr>shape = shape x, elems = map (\<lambda>v. f v (Fin (of_int n))) (elems x),
                    base = None\<rparr>))"
| "np_binop f s (OArr i) (OFloat b) =
     (let x = cells s i in
      Inr (alloc s \<lparr>shape = shape x, elems = map (\<lambda>v. f v b) (elems x), base = None\<rparr>))"
| "np_binop f s (OInt n) (OArr j) =
     (let y = cells s j in
      Inr (alloc s \<lparr>shape = shape y, elems = map (\<lambda>v. f (Fin (of_int n)) v) (elems y),
                    base = None\<rparr>))"
| "np_binop f s (OFloat a) (OArr j) =
     (let y = cells s j in
      Inr (alloc s \<lparr>shape = shape y, elems = map (\<lambda>v. f a v) (elems y), base = None\<rparr>))"
| "np_binop f s (OInt m) (OInt n) = Inr (OFloat (f (Fin (of_int m)) (Fin (of_int n))), s)"
| "np_binop f s (OInt m) (OFloat b) = Inr (OFloat (f (Fin (of_int m)) b), s)"
| "np_binop f s (OFloat a) (OInt n) = Inr (OFloat (f a (Fin (of_int n))), s)"
| "np_binop f s (OFloat a) (OFloat b) = Inr (OFloat (f a b), s)"

text \<open>\<open>type(value) is np.ndarray and value.base is not None\<close>\<close>

fun is_view :: "store \<Rightarrow> pyobj \<Rightarrow> bool" where
  "is_view s (OArr a) = (base (cells s a) \<noteq> None)"
| "is_view s _ = False"

text \<open>
  \<open>2**(8 * bytes_per_sample - 1)\<close>: an \<open>int\<close> when the exponent is not negative, a
  \<open>float\<close> otherwise.
\<close>

definition max_value :: "int \<Rightarrow> pyobj" where
  "max_value bytes_per_sample =
     (let e = 8 * bytes_per_sample - 1 in
      if 0 \<le> e then OInt (2 ^ nat e) else OFloat (Fin (1 / 2 ^ nat (- e))))"

text \<open>
  The scaler. \<open>adc_fullscale_mv\<close> is the quantity the reader keeps (a numpy scalar);
  \<open>bytes_per_sample\<close> is an \<open>int\<close> (both callers have built a dtype name from it before
  the call). The left quotient is evaluated first, then the right one, then the product.
\<close>

definition scale_analog_signal ::
  "store \<Rightarrow> pyobj \<Rightarrow> pyobj \<Rightarrow> npfloat \<Rightarrow> int \<Rightarrow> pyerror + (pyobj \<times> store)"
where
  "scale_analog_signal s val gain adc_fullscale_mv bytes_per_sample =
     (if is_view s val
      then Inl (ValueError (''Value passed to scale_analog_signal cannot be a ''
                  @ ''numpy view because we need to convert the entire ''
                  @ ''array to a quantity.''))
      else
        (case np_binop fdiv s val (max_value bytes_per_sample) of
           Inl e \<Rightarrow> Inl e
         | Inr (q, s1) \<Rightarrow>
             (case np_binop fdiv s1 (OFloat adc_fullscale_mv) gain of
                Inl e \<Rightarrow> Inl e
              | Inr (r, s2) \<Rightarrow> np_binop fmul s2 q r)))"

text \<open>
  A store to run the scaler on: at address 0 an array of two samples that owns its buffer,
  at address 1 a view of it, at address 2 an array of two gains.
\<close>

definition example_store :: store where
  "example_store =
     \<lparr>cells = (\<lambda>a. \<lparr>shape = [0], elems = [], base = None\<rparr>)
        (0 := \<lparr>shape = [2], elems = [Fin 64, Fin (- 128)], base = None\<rparr>,
         1 := \<lparr>shape = [1], elems = [Fin (- 128)], base = Some 0\<rparr>,
         2 := \<lparr>shape = [2], elems = [Fin 100, Fin 50], base = None\<rparr>),
      next_free = 3\<rparr>"

section \<open>The catalog built by \<open>AxonaIO.__init__\<close>\<close>

text \<open>\<open>str(n)\<close> of an \<open>int\<close>.\<close>

fun digits_of_nat :: "nat \<Rightarrow> string" where
  "digits_of_nat n =
     (if n < 10 then [''0123456789'' ! n]
      else digits_of_nat (n div 10) @ [''0123456789'' ! (n mod 10)])"

declare digits_of_nat.simps [simp del]

definition str_of_int :: "int \<Rightarrow> string" where
  "str_of_int i = (if i < 0 then CHR ''-'' # digits_of_nat (nat (- i)) else digits_of_nat (nat i))"

text \<open>
  A directory is the list of its entries, name and content, in the order in which the
  operating system lists them; \<open>glob.glob\<close> returns the matching names in that order.
  The pattern of the channel group files is the base name, a dot, one digit and then
  anything.
\<close>

type_synonym directory = "(string \<times> byte list) list"

definition matches_channel_group :: "string \<Rightarrow> string \<Rightarrow> bool" where
  "matches_channel_group base_filename fname =
     (take (length base_filename + 1) fname = base_filename @ ''.''
      \<and> (case drop (length base_filename + 1) fname of
            [] \<Rightarrow> False
          | d # _ \<Rightarrow> is_digit d))"

definition glob_channel_groups :: "string \<Rightarrow> directory \<Rightarrow> directory" where
  "glob_channel_groups base_filename dir =
     filter (\<lambda>(fname, content). matches_channel_group base_filename fname) dir"

text \<open>What the reader passes to \<open>ChannelIndex\<close>.\<close>

record channel_index =
  ci_name :: string
  channel_names :: "string list"
  index :: "int list"
  channel_ids :: "int list"
  group_id :: int

record catalog =
  channel_to_channel_index :: "int \<rightharpoonup> channel_index"
  channel_group_to_channel_index :: "int \<rightharpoonup> channel_index"
  channel_count :: int
  channel_group_count :: int
  channel_indexes :: "channel_index list"

definition empty_catalog :: catalog where
  "empty_catalog =
     \<lparr>channel_to_channel_index = Map.empty, channel_group_to_channel_index = Map.empty,
      channel_count = 0, channel_group_count = 0, channel_indexes = []\<rparr>"

text \<open>
  The name of a channel: the literal continues over a line break, so the 41 blanks that
  indent the next source line belong to it.
\<close>

definition channel_name :: "int \<Rightarrow> int \<Rightarrow> int \<Rightarrow> string" where
  "channel_name channel_id gid i =
     ''channel_'' @ str_of_int channel_id @ ''_group_'' @ str_of_int gid
       @ ''_internal_'' @ str_of_int i @ replicate 41 (CHR '' '')"

text \<open>
  One turn of the loop over \<open>channel_group_files\<close>: the group counter goes up first, the
  header of the file gives \<open>num_chans\<close>, and the new channels take the ids from
  \<open>channel_count\<close> on.
\<close>

definition add_channel_group :: "catalog \<Rightarrow> file_handle \<Rightarrow> pyerror + catalog" where
  "add_channel_group cat f =
     (let gid = channel_group_count cat + 1 in
      case parse_header_and_leave_cursor f of
        Inl e \<Rightarrow> Inl e
      | Inr (channel_group_params, rest) \<Rightarrow>
          (case channel_group_params ''num_chans'' of
             None \<Rightarrow> Inl (KeyError ''num_chans'')
           | Some (PInt num_chans) \<Rightarrow>
               (let ids = map (\<lambda>i. channel_count cat + i) [0..num_chans - 1];
                    ci = \<lparr>ci_name = ''group_id #'' @ str_of_int gid,
                          channel_names =
                            map (\<lambda>i. channel_name (channel_count cat + i) gid i)
                              [0..num_chans - 1],
                          index = [0..num_chans - 1],
                          channel_ids = ids,
                          group_id = gid\<rparr>
                in Inr (cat\<lparr>channel_group_count := gid,
                            channel_indexes := channel_indexes cat @ [ci],
                            channel_group_to_channel_index :=
                              (channel_group_to_channel_index cat)(gid \<mapsto> ci),
                            channel_to_channel_index :=
                              foldl (\<lambda>m c. m(c \<mapsto> ci)) (channel_to_channel_index cat) ids,
                            channel_count := channel_count cat + num_chans\<rparr>))
           | Some _ \<Rightarrow> Inl TypeError))"

fun add_channel_groups :: "catalog \<Rightarrow> file_handle list \<Rightarrow> pyerror + catalog" where
  "add_channel_groups cat [] = Inr cat"
| "add_channel_groups cat (f # fs) =
     (case add_channel_group cat f of
        Inl e \<Rightarrow> Inl e
      | Inr cat' \<Rightarrow> add_channel_groups cat' fs)"

text \<open>
  The second half of \<open>__init__\<close>: the files are taken in the order \<open>glob.glob\<close> gives
  them (there is no \<open>sorted\<close> here, unlike in \<open>read_spiketrain\<close>).
\<close>

definition build_catalog :: "string \<Rightarrow> directory \<Rightarrow> pyerror + catalog" where
  "build_catalog base_filename dir =
     add_channel_groups empty_catalog (map snd (glob_channel_groups base_filename dir))"

section \<open>What the three decoders share\<close>

text \<open>Errors are threaded as the exceptions are: the first one ends the computation.\<close>

fun bnd :: "pyerror + 'a \<Rightarrow> ('a \<Rightarrow> pyerror + 'b) \<Rightarrow> pyerror + 'b" where
  "bnd (Inl e) f = Inl e"
| "bnd (Inr x) f = f x"

text \<open>\<open>d[k]\<close>, \<open>d.get(k, default)\<close>, \<open>float(v)\<close>, \<open>int(v)\<close>, \<open>v.split(" ")\<close> and \<open>str(v)\<close>.\<close>

definition getitem :: "params \<Rightarrow> string \<Rightarrow> pyerror + pyval" where
  "getitem ps k = (case ps k of None \<Rightarrow> Inl (KeyError k) | Some v \<Rightarrow> Inr v)"


definition float_of_str :: "string \<Rightarrow> pyerror + npfloat" where
  "float_of_str s =
     (case py_float s of
        None \<Rightarrow> Inl (ValueError ''could not convert string to float'')
      | Some x \<Rightarrow> Inr x)"

definition int_of_str :: "string \<Rightarrow> pyerror + int" where
  "int_of_str s =
     (case py_int s of
        None \<Rightarrow> Inl (ValueError ''invalid literal for int() with base 10'')
      | Some n \<Rightarrow> Inr n)"

fun float_of_val :: "pyval \<Rightarrow> pyerror + npfloat" where
  "float_of_val (PInt n) = Inr (Fin (of_int n))"
| "float_of_val (PFloat x) = Inr x"
| "float_of_val (PStr s) = float_of_str s"
| "float_of_val PNone = Inl TypeError"

text \<open>\<open>int\<close> of a float truncates towards zero.\<close>

fun int_of_val :: "pyval \<Rightarrow> pyerror + int" where
  "int_of_val (PInt n) = Inr n"
| "int_of_val (PFloat (Fin x)) = Inr (if 0 \<le> x then \<lfloor>x\<rfloor> else \<lceil>x\<rceil>)"
| "int_of_val (PFloat NaN) = Inl (ValueError ''cannot convert float NaN to integer'')"
| "int_of_val (PFloat _) = Inl OverflowError"
| "int_of_val (PStr s) = int_of_str s"
| "int_of_val PNone = Inl TypeError"

fun split_of_val :: "pyval \<Rightarrow> pyerror + string list" where
  "split_of_val (PStr s) = Inr (split_char (CHR '' '') s)"
| "split_of_val _ = Inl AttributeError"


text \<open>Integers in a file: big-endian and little-endian, two's complement when signed.\<close>

definition be_uint :: "byte list \<Rightarrow> nat" where
  "be_uint bs = foldl (\<lambda>acc b. 256 * acc + (of_char b :: nat)) 0 bs"

definition be_int :: "byte list \<Rightarrow> int" where
  "be_int bs =
     (let u = int (be_uint bs); w = length bs in
      if 2 ^ (8 * w - 1) \<le> u then u - 2 ^ (8 * w) else u)"


text \<open>The integer dtypes numpy has: \<open>i1\<close>, \<open>i2\<close>, \<open>i4\<close>, \<open>i8\<close> (and \<open>u\<close> alike).\<close>

definition valid_int_width :: "int \<Rightarrow> bool" where
  "valid_int_width n = (n = 1 \<or> n = 2 \<or> n = 4 \<or> n = 8)"

text \<open>
  \<open>np.fromfile(f, dtype, count)\<close> with items of \<open>itemsize\<close> bytes. A negative count
  reads the whole items that are left. When fewer than \<open>count\<close> items are left the
  result is short without an error, and the cursor stands at the end of the file.
\<close>

definition items :: "nat \<Rightarrow> nat \<Rightarrow> byte list \<Rightarrow> byte list list" where
  "items itemsize n f = map (\<lambda>k. take itemsize (drop (k * itemsize) f)) [0..<n]"

definition np_fromfile :: "nat \<Rightarrow> int \<Rightarrow> file_handle \<Rightarrow> byte list list \<times> file_handle" where
  "np_fromfile itemsize count f =
     (let avail = length f div itemsize in
      if count < 0 then (items itemsize avail f, drop (avail * itemsize) f)
      else if nat count \<le> avail
           then (items itemsize (nat count) f, drop (nat count * itemsize) f)
           else (items itemsize avail f, []))"

text \<open>The field of \<open>n\<close> integers of \<open>width\<close> bytes that starts at \<open>offset\<close> in a record.\<close>

definition field_be :: "nat \<Rightarrow> nat \<Rightarrow> nat \<Rightarrow> byte list \<Rightarrow> int list" where
  "field_be offset width n r =
     map (\<lambda>k. be_int (take width (drop (offset + k * width) r))) [0..<n]"


section \<open>The tracking decoder: \<open>read_tracking\<close>\<close>

text \<open>
  Lines 324 to 326: the value of \<open>sample_rate\<close> split at the blanks, the \<open>assert\<close> on the
  second piece (compared as it is with \<open>"hz"\<close>), then \<open>float\<close> of the first piece.
\<close>

definition tracking_sample_rate :: "params \<Rightarrow> pyerror + npfloat" where
  "tracking_sample_rate ps =
     bnd (getitem ps ''sample_rate'') (\<lambda>v.
     bnd (split_of_val v) (\<lambda>sample_rate_split.
       if length sample_rate_split < 2 then Inl IndexError
       else if sample_rate_split ! 1 \<noteq> ''hz'' then Inl AssertionError
       else float_of_str (sample_rate_split ! 0)))"

text \<open>\<open>times = data["t"].astype(float) / time_scale\<close>\<close>

definition decode_times :: "npfloat \<Rightarrow> int list \<Rightarrow> npfloat list" where
  "decode_times time_scale ts = map (\<lambda>t. fdiv (Fin (of_int t)) time_scale) ts"

text \<open>
  \<open>coords[np.where(data["coords"][:, i] == 1023)] = np.nan\<close>: \<open>np.where\<close> gives the
  indices of the rows whose column \<open>i\<close> holds 1023, and the assignment indexes \<open>coords\<close>
  by rows only, so it writes every column of those rows.
\<close>

definition nan_rows :: "nat \<Rightarrow> int list list \<Rightarrow> npfloat list list \<Rightarrow> npfloat list list" where
  "nan_rows i raw coords =
     map2 (\<lambda>r c. if r ! i = 1023 then map (\<lambda>x. NaN) c else c) raw coords"

text \<open>
  Lines 353 to 357: the coordinates divided by the length scale, then the loop over the
  \<open>2 * tracked_spots_count\<close> columns. Every row of \<open>raw\<close> has that many entries.
\<close>

definition decode_coords :: "nat \<Rightarrow> npfloat \<Rightarrow> int list list \<Rightarrow> npfloat list list" where
  "decode_coords tracked_spots_count length_scale raw =
     (let coords = map (map (\<lambda>c. fdiv (Fin (of_int c)) length_scale)) raw in
      foldl (\<lambda>cs i. nan_rows i raw cs) coords [0..<2 * tracked_spots_count])"

record irr_signal =
  sig_name :: string
  signal :: "npfloat list list"
  times :: "npfloat list"
  sig_annotations :: params

text \<open>
  \<open>read_tracking\<close>, given the number of tracked spots of the root file and the \<open>.pos\<close>
  file (\<open>None\<close> when it does not exist). A record is the timestamp, the coordinates and
  two pixel counts of four bytes; all are big-endian signed integers.
\<close>

definition read_tracking :: "int \<Rightarrow> string \<Rightarrow> file_handle option \<Rightarrow> pyerror + irr_signal list" where
  "read_tracking tracked_spots_count pos_filename file =
     (case file of
        None \<Rightarrow> Inl (IOError ([CHR 0x27] @ ''.pos'' @ [CHR 0x27] @ '' file not found:''
                         @ pos_filename))
      | Some f \<Rightarrow>
     bnd (parse_header_and_leave_cursor f) (\<lambda>(ps, f1).
     bnd (tracking_sample_rate ps) (\<lambda>sample_rate.
     bnd (bnd (getitem ps ''EEG_samples_per_position'') float_of_val) (\<lambda>eeg_samples_per_position.
     bnd (bnd (getitem ps ''num_pos_samples'') int_of_val) (\<lambda>pos_samples_count.
     bnd (bnd (getitem ps ''bytes_per_timestamp'') int_of_val) (\<lambda>bytes_per_timestamp.
     bnd (bnd (getitem ps ''bytes_per_coord'') int_of_val) (\<lambda>bytes_per_coord.
       if \<not> valid_int_width bytes_per_timestamp \<or> \<not> valid_int_width bytes_per_coord
       then Inl TypeError
       else if tracked_spots_count < 0
       then Inl (ValueError ''negative dimensions are not allowed'')
       else
         (let spots = nat tracked_spots_count;
              wt = nat bytes_per_timestamp;
              wc = nat bytes_per_coord;
              bytes_per_pos = wt + 2 * spots * wc + 8;
              (data, f2) = np_fromfile bytes_per_pos pos_samples_count f1
          in
          bnd (assert_end_of_data f2) (\<lambda>f3.
          bnd (bnd (getitem ps ''timebase'') split_of_val) (\<lambda>timebase_split.
          bnd (case timebase_split of
                 [] \<Rightarrow> Inl IndexError
               | t # _ \<Rightarrow> float_of_str t) (\<lambda>time_scale.
          bnd (bnd (getitem ps ''pixels_per_metre'') float_of_val) (\<lambda>length_scale.
            (let ts = decode_times time_scale (map (\<lambda>r. be_int (take wt r)) data);
                 coords = decode_coords spots length_scale
                            (map (field_be wt wc (2 * spots)) data)
             in Inr (map (\<lambda>i. \<lparr>sig_name = ''tracking_xy'' @ str_of_int (int i),
                                signal = map (\<lambda>row. take 2 (drop (2 * i) row)) coords,
                                times = ts,
                                sig_annotations = ps\<rparr>)
                       [0..<spots]))))))))))))))"

section \<open>The analog decoder: \<open>read_analogsignal\<close>\<close>


text \<open>
  Lines 411 to 414 without line 412: the unit is compared in lower case here.
\<close>

definition analog_sample_rate :: "string list \<Rightarrow> pyerror + npfloat" where
  "analog_sample_rate sample_rate_split =
     (if length sample_rate_split < 2 then Inl IndexError
      else if lower (sample_rate_split ! 1) \<noteq> ''hz'' then Inl AssertionError
      else float_of_str (sample_rate_split ! 0))"






section \<open>The spike decoder: \<open>read_spiketrain\<close>\<close>



text \<open>\<open>xs[::n]\<close> for a positive \<open>n\<close>, and \<open>xs[::step]\<close> for any step.\<close>

definition every_nth :: "nat \<Rightarrow> 'a list \<Rightarrow> 'a list" where
  "every_nth n xs = map (\<lambda>k. xs ! (k * n)) [0..<(length xs + n - 1) div n]"












section \<open>Example inputs\<close>












section \<open>Properties of the header scanner and the trailer check\<close>

lemmas header_eval_simps =
  parse_header_and_leave_cursor_def parse_params_def parse_line_def
  ends_with_search_string_def search_string_def decode_latin1_def newline_def strip_def
  is_space_def split_once_def parse_value_def py_int_def is_digit_def digits_val_def

text \<open>
  C6, as the code behaves: on the bytes \<open>foo 1\n bar 2\n data_startXYZ\<close> the scanner
  returns the block with \<open>foo\<close> at 1, \<open>bar\<close> at 2 and the sentinel itself as a third key
  \<open>data_start\<close> with the value \<open>None\<close> (the accumulated text that is parsed ends with the
  sentinel), and leaves the handle at \<open>XYZ\<close>.
\<close>

theorem header_scan_example:
  "parse_header_and_leave_cursor
     (''foo 1'' @ [newline] @ ''bar 2'' @ [newline] @ ''data_startXYZ'')
   = Inr ([''foo'' \<mapsto> PInt 1, ''bar'' \<mapsto> PInt 2, ''data_start'' \<mapsto> PNone], ''XYZ'')"
  by (simp add: header_eval_simps)

text \<open>
  C6 as stated fails: the block returned is not the one with the keys \<open>foo\<close> and \<open>bar\<close>
  only.
\<close>

theorem header_scan_example_not_two_keys:
  "parse_header_and_leave_cursor
     (''foo 1'' @ [newline] @ ''bar 2'' @ [newline] @ ''data_startXYZ'')
   \<noteq> Inr ([''foo'' \<mapsto> PInt 1, ''bar'' \<mapsto> PInt 2], ''XYZ'')"
proof
  assume "parse_header_and_leave_cursor
     (''foo 1'' @ [newline] @ ''bar 2'' @ [newline] @ ''data_startXYZ'')
   = Inr ([''foo'' \<mapsto> PInt 1, ''bar'' \<mapsto> PInt 2], ''XYZ'')"
  then have "[''foo'' \<mapsto> PInt 1, ''bar'' \<mapsto> PInt 2, ''data_start'' \<mapsto> PNone]
      = [''foo'' \<mapsto> PInt 1, ''bar'' \<mapsto> PInt 2]"
    by (simp add: header_eval_simps)
  then have "[''foo'' \<mapsto> PInt 1, ''bar'' \<mapsto> PInt 2, ''data_start'' \<mapsto> PNone] ''data_start''
      = [''foo'' \<mapsto> PInt 1, ''bar'' \<mapsto> PInt 2] ''data_start''"
    by (rule arg_cong)
  then show False by simp
qed

text \<open>
  C7: the trailer check returns exactly when the rest of the file, decoded and stripped,
  is \<open>data_end\<close>; otherwise its \<open>assert\<close> fails (\<open>AssertionError\<close> is how the code
  reports a bad trailer).
\<close>

theorem assert_end_of_data_iff:
  "((\<exists>r. assert_end_of_data f = Inr r) \<longleftrightarrow> strip (decode_latin1 f) = ''data_end'')
   \<and> (strip (decode_latin1 f) \<noteq> ''data_end'' \<longrightarrow> assert_end_of_data f = Inl AssertionError)"
  by (simp add: assert_end_of_data_def)

theorem assert_end_of_data_iff_witness:
  "(\<exists>r. assert_end_of_data ([CHR 0x0D, newline] @ ''data_end'' @ [CHR 0x0D, newline]) = Inr r)
   \<and> assert_end_of_data ''data_enc'' = Inl AssertionError
   \<and> assert_end_of_data ''data_en'' = Inl AssertionError
   \<and> assert_end_of_data [] = Inl AssertionError"
proof -
  have ok: "strip (decode_latin1 ([CHR 0x0D, newline] @ ''data_end'' @ [CHR 0x0D, newline]))
      = ''data_end''"
    by (simp add: decode_latin1_def strip_def is_space_def newline_def)
  have bad1: "strip (decode_latin1 ''data_enc'') \<noteq> ''data_end''"
    by (simp add: decode_latin1_def strip_def is_space_def)
  have bad2: "strip (decode_latin1 ''data_en'') \<noteq> ''data_end''"
    by (simp add: decode_latin1_def strip_def is_space_def)
  have bad3: "strip (decode_latin1 []) \<noteq> ''data_end''"
    by (simp add: decode_latin1_def strip_def)
  show ?thesis
    using assert_end_of_data_iff [of "[CHR 0x0D, newline] @ ''data_end'' @ [CHR 0x0D, newline]"]
      assert_end_of_data_iff [of "''data_enc''"] assert_end_of_data_iff [of "''data_en''"]
      assert_end_of_data_iff [of "[]"] ok bad1 bad2 bad3
    by blast
qed

text \<open>
  The scanner on a file that runs out: whenever no prefix of the file makes the
  accumulated text end with the sentinel, the result is the \<open>TypeError\<close>.
\<close>

lemma scan_header_eof:
  "(\<And>n. 0 < n \<Longrightarrow> n \<le> length f \<Longrightarrow> \<not> ends_with_search_string (h @ take n f))
   \<Longrightarrow> scan_header h f = Inl TypeError"
proof (induction f arbitrary: h)
  case Nil
  then show ?case by simp
next
  case (Cons b rest)
  have first: "\<not> ends_with_search_string (h @ [b])"
    using Cons.prems [of 1] by simp
  have "scan_header (h @ [b]) rest = Inl TypeError"
  proof (rule Cons.IH)
    fix n assume "0 < n" "n \<le> length rest"
    then show "\<not> ends_with_search_string ((h @ [b]) @ take n rest)"
      using Cons.prems [of "Suc n"] by simp
  qed
  with first show ?case by (simp add: decode_latin1_def)
qed

lemma ends_with_search_string_infix:
  "ends_with_search_string t \<Longrightarrow> \<exists>pre. t = pre @ search_string"
  unfolding ends_with_search_string_def
  by (metis append_take_drop_id)

lemma parse_header_without_sentinel:
  assumes "\<not> (\<exists>pre post. f = pre @ search_string @ post)"
  shows "parse_header_and_leave_cursor f = Inl TypeError"
proof -
  have "scan_header [] f = Inl TypeError"
  proof (rule scan_header_eof)
    fix n assume "0 < n" "n \<le> length f"
    show "\<not> ends_with_search_string ([] @ take n f)"
    proof
      assume "ends_with_search_string ([] @ take n f)"
      then obtain pre where "take n f = pre @ search_string"
        using ends_with_search_string_infix by auto
      then have "f = pre @ search_string @ drop n f"
        by (metis append_take_drop_id append.assoc)
      with assms show False by blast
    qed
  qed
  then show ?thesis by (simp add: parse_header_and_leave_cursor_def)
qed

text \<open>
  C8, at a file that ends inside the sentinel: the scanner ends with \<open>TypeError\<close>, and
  with no \<open>IOError\<close> whatever its message, so the error raised does not name the
  sentinel.
\<close>

theorem header_scan_eof_is_TypeError:
  "parse_header_and_leave_cursor (''foo 1'' @ [newline] @ ''data_star'') = Inl TypeError
   \<and> parse_header_and_leave_cursor [] = Inl TypeError
   \<and> (\<forall>msg. parse_header_and_leave_cursor (''foo 1'' @ [newline] @ ''data_star'')
          \<noteq> Inl (IOError msg))"
  by (simp add: header_eval_simps)

section \<open>Properties of the sample scaler\<close>

lemma np_binop_frame:
  "np_binop f s x y = Inr (r, s') \<Longrightarrow>
     (\<forall>a<next_free s. cells s' a = cells s a) \<and> next_free s \<le> next_free s'
     \<and> (\<forall>a. r = OArr a \<longrightarrow> next_free s \<le> a \<and> a < next_free s')"
  by (cases x; cases y) (auto simp: alloc_def Let_def split: if_splits)

lemma max_value_pos: "1 \<le> b \<Longrightarrow> max_value b = OInt (2 ^ nat (8 * b - 1))"
  by (simp add: max_value_def)

lemma scale_owned_array_scalar_gain:
  assumes "base (cells s a) = None" and "a < next_free s" and "1 \<le> b"
  shows "\<exists>s'. scale_analog_signal s (OArr a) (OFloat g) adc b
               = Inr (OArr (Suc (next_free s)), s')
     \<and> cells s' (Suc (next_free s)) =
         \<lparr>shape = shape (cells s a),
          elems = map (\<lambda>v. fmul (fdiv v (Fin (2 ^ nat (8 * b - 1)))) (fdiv adc g))
                    (elems (cells s a)),
          base = None\<rparr>"
  using assms
  by (simp add: scale_analog_signal_def max_value_pos Let_def alloc_def map2_map_map comp_def)

lemma scale_owned_array_int_gain:
  assumes "base (cells s a) = None" and "a < next_free s" and "1 \<le> b"
  shows "\<exists>s'. scale_analog_signal s (OArr a) (OInt g) adc b
               = Inr (OArr (Suc (next_free s)), s')
     \<and> cells s' (Suc (next_free s)) =
         \<lparr>shape = shape (cells s a),
          elems = map (\<lambda>v. fmul (fdiv v (Fin (2 ^ nat (8 * b - 1)))) (fdiv adc (Fin (of_int g))))
                    (elems (cells s a)),
          base = None\<rparr>"
  using assms
  by (simp add: scale_analog_signal_def max_value_pos Let_def alloc_def map2_map_map comp_def)

lemma scale_owned_array_array_gain:
  assumes "base (cells s a) = None" and "a < next_free s" and "j < next_free s"
    and "shape (cells s a) = shape (cells s j)" and "1 \<le> b"
  shows "\<exists>s'. scale_analog_signal s (OArr a) (OArr j) adc b
               = Inr (OArr (Suc (Suc (next_free s))), s')
     \<and> cells s' (Suc (Suc (next_free s))) =
         \<lparr>shape = shape (cells s a),
          elems = map2 (\<lambda>v g. fmul (fdiv v (Fin (2 ^ nat (8 * b - 1)))) (fdiv adc g))
                    (elems (cells s a)) (elems (cells s j)),
          base = None\<rparr>"
  using assms
  by (simp add: scale_analog_signal_def max_value_pos Let_def alloc_def map2_map_map
      comp_def zip_map1 zip_map2 split_def)

text \<open>
  C5: with a gain that is not zero (a \<open>float\<close>, or an \<open>int\<close> of the same value) and a byte
  width of at least one, a scalar integer input \<open>v\<close> gives the float
  \<open>v / 2^(8b - 1) * (full_scale / gain)\<close>, the division being the one of floats and not
  the truncating one of integers, and an array of integers that owns its buffer gives a
  new array of the same shape with that value at every element. (The sentence of the
  spec goes on to the arrays that are views; the lemma \<open>scale_analog_signal_view\<close> is
  about them.)
\<close>

theorem scale_analog_signal_owned:
  assumes "g \<noteq> 0" and "1 \<le> b"
    and "gain = OFloat (Fin g) \<or> (\<exists>gi. gain = OInt gi \<and> g = of_int gi)"
  shows "scale_analog_signal s (OInt v) gain (Fin fs) b
           = Inr (OFloat (Fin (of_int v / 2 ^ nat (8 * b - 1) * (fs / g))), s)
     \<and> (base (cells s a) = None \<and> a < next_free s
          \<and> elems (cells s a) = map (\<lambda>n. Fin (of_int n)) ns
        \<longrightarrow> (\<exists>s'. scale_analog_signal s (OArr a) gain (Fin fs) b
                     = Inr (OArr (Suc (next_free s)), s')
               \<and> shape (cells s' (Suc (next_free s))) = shape (cells s a)
               \<and> elems (cells s' (Suc (next_free s)))
                   = map (\<lambda>n. Fin (of_int n / 2 ^ nat (8 * b - 1) * (fs / g))) ns))"
proof (intro conjI impI)
  show "scale_analog_signal s (OInt v) gain (Fin fs) b
           = Inr (OFloat (Fin (of_int v / 2 ^ nat (8 * b - 1) * (fs / g))), s)"
    using assms by (auto simp: scale_analog_signal_def max_value_pos)
next
  assume h: "base (cells s a) = None \<and> a < next_free s
          \<and> elems (cells s a) = map (\<lambda>n. Fin (of_int n)) ns"
  have "\<exists>s'. scale_analog_signal s (OArr a) gain (Fin fs) b = Inr (OArr (Suc (next_free s)), s')
     \<and> cells s' (Suc (next_free s)) =
         \<lparr>shape = shape (cells s a),
          elems = map (\<lambda>v. fmul (fdiv v (Fin (2 ^ nat (8 * b - 1)))) (fdiv (Fin fs) (Fin g)))
                    (elems (cells s a)),
          base = None\<rparr>"
    using assms(3)
  proof
    assume "gain = OFloat (Fin g)"
    then show ?thesis
      using scale_owned_array_scalar_gain [of s a b "Fin g" "Fin fs"] h assms(2) by simp
  next
    assume "\<exists>gi. gain = OInt gi \<and> g = of_int gi"
    then obtain gi where "gain = OInt gi" and "g = of_int gi" by blast
    then show ?thesis
      using scale_owned_array_int_gain [of s a b gi "Fin fs"] h assms(2) by simp
  qed
  then obtain s' where
    r: "scale_analog_signal s (OArr a) gain (Fin fs) b = Inr (OArr (Suc (next_free s)), s')"
    and c: "cells s' (Suc (next_free s)) =
         \<lparr>shape = shape (cells s a),
          elems = map (\<lambda>v. fmul (fdiv v (Fin (2 ^ nat (8 * b - 1)))) (fdiv (Fin fs) (Fin g)))
                    (elems (cells s a)),
          base = None\<rparr>"
    by blast
  have "elems (cells s' (Suc (next_free s)))
      = map (\<lambda>n. Fin (of_int n / 2 ^ nat (8 * b - 1) * (fs / g))) ns"
    using h assms(1) by (simp add: c comp_def)
  with r c show "\<exists>s'. scale_analog_signal s (OArr a) gain (Fin fs) b
                     = Inr (OArr (Suc (next_free s)), s')
               \<and> shape (cells s' (Suc (next_free s))) = shape (cells s a)
               \<and> elems (cells s' (Suc (next_free s)))
                   = map (\<lambda>n. Fin (of_int n / 2 ^ nat (8 * b - 1) * (fs / g))) ns"
    by simp
qed

theorem scale_analog_signal_owned_witness:
  "scale_analog_signal example_store (OInt 64) (OInt 100) (Fin 1500) 1
     = Inr (OFloat (Fin (15 / 2)), example_store)
   \<and> (\<exists>s'. scale_analog_signal example_store (OArr 0) (OInt 100) (Fin 1500) 1
             = Inr (OArr 4, s')
        \<and> shape (cells s' 4) = [2] \<and> elems (cells s' 4) = [Fin (15 / 2), Fin (- 15)])"
  using scale_analog_signal_owned [of 100 1 "OInt 100" example_store 64 1500 0 "[64, - 128]"]
  by (simp add: example_store_def)

text \<open>
  The guard at the head of the scaler: every array that is a view of another is refused
  with \<open>ValueError\<close>, whatever the gain, the full scale and the byte width.
\<close>

lemma scale_analog_signal_view:
  "base (cells s a) \<noteq> None \<Longrightarrow>
     scale_analog_signal s (OArr a) gain adc b
       = Inl (ValueError (''Value passed to scale_analog_signal cannot be a ''
                @ ''numpy view because we need to convert the entire ''
                @ ''array to a quantity.''))"
  by (simp add: scale_analog_signal_def)

text \<open>
  C10: when the scaler returns, every array that was in the store before the call (the
  value and the gain among them) has the contents it had, and a result that is an array
  stands at an address that was free before the call: it is a new array, not one of the
  inputs rewritten.
\<close>

theorem scale_analog_signal_frame:
  assumes "scale_analog_signal s val gain adc b = Inr (res, s')"
  shows "(\<forall>a<next_free s. cells s' a = cells s a)
       \<and> (\<forall>a. res = OArr a \<longrightarrow> next_free s \<le> a \<and> a < next_free s')"
proof -
  from assms obtain q s1 r s2 where
    1: "np_binop fdiv s val (max_value b) = Inr (q, s1)" and
    2: "np_binop fdiv s1 (OFloat adc) gain = Inr (r, s2)" and
    3: "np_binop fmul s2 q r = Inr (res, s')"
    by (auto simp: scale_analog_signal_def split: if_splits sum.splits)
  from np_binop_frame [OF 1] np_binop_frame [OF 2] np_binop_frame [OF 3]
  show ?thesis
    by (metis (no_types, lifting) le_trans less_le_trans)
qed

theorem scale_analog_signal_frame_witness:
  "\<exists>s'. scale_analog_signal example_store (OArr 0) (OArr 2) (Fin 1500) 1 = Inr (OArr 5, s')
     \<and> cells s' 0 = cells example_store 0 \<and> cells s' 1 = cells example_store 1
     \<and> cells s' 2 = cells example_store 2 \<and> next_free example_store \<le> 5"
proof -
  obtain s' where
    r: "scale_analog_signal example_store (OArr 0) (OArr 2) (Fin 1500) 1 = Inr (OArr 5, s')"
    using scale_owned_array_array_gain [of example_store 0 2 1 "Fin 1500"]
    by (auto simp: example_store_def)
  have n: "next_free example_store = 3"
    by (simp add: example_store_def)
  from scale_analog_signal_frame [OF r] n
  have "cells s' 0 = cells example_store 0 \<and> cells s' 1 = cells example_store 1
     \<and> cells s' 2 = cells example_store 2 \<and> next_free example_store \<le> 5"
    by simp
  with r show ?thesis by blast
qed

section \<open>The catalog on a directory listed out of order\<close>

lemmas catalog_eval_simps =
  build_catalog_def glob_channel_groups_def matches_channel_group_def add_channel_group_def
  empty_catalog_def channel_name_def str_of_int_def digits_of_nat.simps Let_def upto.simps

text \<open>
  C2, at a directory that lists \<open>s.2\<close> (2 channels) before \<open>s.1\<close> (4 channels) and \<open>s.3\<close>
  (3 channels): the builder numbers the groups in the order of the listing, so group 1
  gets the two channels of \<open>s.2\<close> and group 2 the four channels of \<open>s.1\<close>. The blocks of
  channel ids are contiguous and the total is the sum, 9.
\<close>

theorem build_catalog_unsorted_listing:
  "(case build_catalog ''s''
           [(''s.2'', ''num_chans 2'' @ [newline] @ ''data_start''),
            (''s.set'', ''''),
            (''s.1'', ''num_chans 4'' @ [newline] @ ''data_start''),
            (''s.3'', ''num_chans 3'' @ [newline] @ ''data_start'')] of
      Inl e \<Rightarrow> None
    | Inr cat \<Rightarrow>
        Some (map (\<lambda>g. map_option channel_ids (channel_group_to_channel_index cat g))
                [1, 2, 3],
              channel_count cat))
   = Some ([Some [0, 1], Some [2, 3, 4, 5], Some [6, 7, 8]], 9)"
  by (simp add: catalog_eval_simps header_eval_simps)

section \<open>Properties of the tracking decoder\<close>

lemmas float_eval_simps =
  float_of_str_def py_float_def exponent_part_def scale10_def lower_def lower_char_def
  strip_def is_space_def is_digit_def digits_val_def

lemma nan_rows_step:
  assumes "\<forall>r\<in>set raw. m < length r"
  shows "nan_rows m raw
           (map (\<lambda>r. if 1023 \<in> set (take m r) then map (\<lambda>c. NaN) r
                      else map (\<lambda>c. fdiv (Fin (of_int c)) ls) r) raw)
       = map (\<lambda>r. if 1023 \<in> set (take (Suc m) r) then map (\<lambda>c. NaN) r
                   else map (\<lambda>c. fdiv (Fin (of_int c)) ls) r) raw"
  using assms
  by (induction raw) (auto simp: nan_rows_def take_Suc_conv_app_nth)

lemma decode_coords_columns:
  assumes "\<forall>r\<in>set raw. length r = n" and "m \<le> n"
  shows "foldl (\<lambda>cs i. nan_rows i raw cs)
           (map (map (\<lambda>c. fdiv (Fin (of_int c)) ls)) raw) [0..<m]
       = map (\<lambda>r. if 1023 \<in> set (take m r) then map (\<lambda>c. NaN) r
                   else map (\<lambda>c. fdiv (Fin (of_int c)) ls) r) raw"
  using assms(2)
proof (induction m)
  case 0
  then show ?case by simp
next
  case (Suc m)
  then have "\<forall>r\<in>set raw. m < length r" using assms(1) by auto
  from nan_rows_step [OF this] Suc show ?case by simp
qed

text \<open>
  What lines 353 to 357 compute: a record with the raw value 1023 in any of its
  coordinate slots has not-a-number in every coordinate slot; a record without it has
  every coordinate divided by the length scale; every timestamp is divided by the time
  scale, whatever the coordinates are.
\<close>

lemma decode_coords_rows:
  assumes "\<forall>r\<in>set raw. length r = 2 * spots"
  shows "decode_coords spots length_scale raw
       = map (\<lambda>r. if 1023 \<in> set r then map (\<lambda>c. NaN) r
                   else map (\<lambda>c. fdiv (Fin (of_int c)) length_scale) r) raw
     \<and> decode_times time_scale ts = map (\<lambda>t. fdiv (Fin (of_int t)) time_scale) ts"
proof -
  have "\<forall>r\<in>set raw. take (2 * spots) r = r" using assms by simp
  then have "map (\<lambda>r. if 1023 \<in> set (take (2 * spots) r) then map (\<lambda>c. NaN) r
                   else map (\<lambda>c. fdiv (Fin (of_int c)) length_scale) r) raw
     = map (\<lambda>r. if 1023 \<in> set r then map (\<lambda>c. NaN) r
                   else map (\<lambda>c. fdiv (Fin (of_int c)) length_scale) r) raw"
    by (intro map_cong) auto
  with decode_coords_columns [OF assms order_refl, of length_scale]
  show ?thesis by (simp add: decode_coords_def decode_times_def)
qed

text \<open>
  C3, at two tracked spots, 100 pixels to the metre and 50 ticks to the second: in the
  record \<open>(1023, 1023, 700, 900)\<close> the first spot is missing and the second is at
  \<open>(700, 900)\<close>, but all four slots decode to not-a-number, so the second spot does not
  decode to \<open>(7, 9)\<close>; the record \<open>(200, 300, 400, 500)\<close> and both timestamps decode to
  their scaled values.
\<close>

theorem decode_coords_other_spot_lost:
  "decode_coords 2 (Fin 100) [[1023, 1023, 700, 900], [200, 300, 400, 500]]
     = [[NaN, NaN, NaN, NaN], [Fin 2, Fin 3, Fin 4, Fin 5]]
   \<and> decode_coords 2 (Fin 100) [[1023, 1023, 700, 900], [200, 300, 400, 500]]
     \<noteq> [[NaN, NaN, Fin 7, Fin 9], [Fin 2, Fin 3, Fin 4, Fin 5]]
   \<and> decode_times (Fin 50) [100, 150] = [Fin 2, Fin 3]"
  using decode_coords_rows
    [of "[[1023, 1023, 700, 900], [200, 300, 400, 500]]" 2 "Fin 100" "Fin 50" "[100, 150]"]
  by simp

lemma sample_rate_Hz_parsed:
  "parse_params (''sample_rate 50.0 Hz'' @ [newline] @ ''data_start'') ''sample_rate''
     = Some (PStr ''50.0 Hz'')"
  by (simp add: header_eval_simps float_eval_simps)

lemma float_of_str_50: "float_of_str ''50.0'' = Inr (Fin 50)"
  by (simp add: float_eval_simps)

text \<open>
  C9, at the header line \<open>sample_rate 50.0 Hz\<close>: the assertion of the tracking decoder
  fails, where the analog decoder, which lowers the unit first, accepts the same line;
  with \<open>hz\<close> the tracking decoder reads 50.
\<close>

theorem tracking_unit_case_sensitive:
  "tracking_sample_rate (parse_params (''sample_rate 50.0 Hz'' @ [newline] @ ''data_start''))
     = Inl AssertionError
   \<and> bnd (bnd (getitem (parse_params (''sample_rate 50.0 Hz'' @ [newline] @ ''data_start''))
                 ''sample_rate'') split_of_val) analog_sample_rate
     = Inr (Fin 50)
   \<and> tracking_sample_rate (parse_params (''sample_rate 50.0 hz'' @ [newline] @ ''data_start''))
     = Inr (Fin 50)"
  by (simp add: sample_rate_Hz_parsed float_of_str_50 tracking_sample_rate_def
      analog_sample_rate_def getitem_def header_eval_simps float_eval_simps)

section \<open>Properties of the analog decoder\<close>












section \<open>Properties of the spike decoder\<close>






lemma length_every_nth: "0 < n \<Longrightarrow> length (every_nth n xs) = (length xs + n - 1) div n"
  by (simp add: every_nth_def)



























end
